theory Spec2Isabelle
  imports Main "HOL-Library.Char_ord" "HOL-Library.List_Lexorder" "HOL-Library.Multiset"
begin

section \<open>Python values\<close>

text \<open>
  A Python \<open>str\<close> is represented by the bytes of its UTF-8 encoding, one \<open>char\<close> per
  byte, so \<open>s.encode("utf8")\<close> is the identity and comparing two strings code point by
  code point is comparing them byte by byte.  Query parameters and headers carry scalar
  values; request bodies and decoded responses are JSON-like trees.  Floats are left out.
\<close>

datatype pyatom = ANone | ABool bool | AInt int | AStr string

datatype pyval =
    Atom pyatom
  | PList "pyval list"
  | PDict "(string \<times> pyval) list"
  | PObj string  \<comment> \<open>any other object, for instance an exception instance\<close>

abbreviation PNone :: pyval where "PNone \<equiv> Atom ANone"
abbreviation PStr :: "string \<Rightarrow> pyval" where "PStr s \<equiv> Atom (AStr s)"
abbreviation PInt :: "int \<Rightarrow> pyval" where "PInt i \<equiv> Atom (AInt i)"

datatype pyerr =
    AttributeError
  | TypeError
  | ValueError
  | NameError string
  | JSONDecodeError

type_synonym qdict = "(string \<times> pyatom) list"

text \<open>Truthiness, as \<open>if x:\<close> tests it.\<close>

fun truthy :: "pyval \<Rightarrow> bool" where
  "truthy (Atom ANone) = False"
| "truthy (Atom (ABool b)) = b"
| "truthy (Atom (AInt i)) = (i \<noteq> 0)"
| "truthy (Atom (AStr s)) = (s \<noteq> [])"
| "truthy (PList xs) = (xs \<noteq> [])"
| "truthy (PDict d) = (d \<noteq> [])"
| "truthy (PObj n) = True"

section \<open>Dictionaries\<close>

text \<open>
  A dict is an association list in insertion order with pairwise distinct keys.
  \<open>d[k] = v\<close> overwrites the value of an existing key where it stands and appends a
  new key at the end.
\<close>

fun setitem :: "('k \<times> 'v) list \<Rightarrow> 'k \<Rightarrow> 'v \<Rightarrow> ('k \<times> 'v) list" where
  "setitem [] k v = [(k, v)]"
| "setitem (p # d) k v = (if fst p = k then (k, v) # d else p # setitem d k v)"

definition dict_update :: "('k \<times> 'v) list \<Rightarrow> ('k \<times> 'v) list \<Rightarrow> ('k \<times> 'v) list" where
  "dict_update d items = foldl (\<lambda>acc p. setitem acc (fst p) (snd p)) d items"

definition keys :: "('k \<times> 'v) list \<Rightarrow> 'k list" where
  "keys d = map fst d"

section \<open>String operations\<close>

definition startswith :: "string \<Rightarrow> string \<Rightarrow> bool" where
  "startswith s p = (take (length p) s = p)"

fun join :: "string \<Rightarrow> string list \<Rightarrow> string" where
  "join sep [] = []"
| "join sep [x] = x"
| "join sep (x # y # ys) = x @ sep @ join sep (y # ys)"

fun split_on :: "char \<Rightarrow> string \<Rightarrow> string list" where
  "split_on c [] = [[]]"
| "split_on c (x # xs) =
     (if x = c then [] # split_on c xs
      else (case split_on c xs of [] \<Rightarrow> [[x]] | w # ws \<Rightarrow> (x # w) # ws))"

definition ascii_upper :: string where
  "ascii_upper = ''ABCDEFGHIJKLMNOPQRSTUVWXYZ''"

definition ascii_lower :: string where
  "ascii_lower = ''abcdefghijklmnopqrstuvwxyz''"

definition digits :: string where
  "digits = ''0123456789''"

text \<open>
  \<open>str.lower\<close> and \<open>str.upper\<close> for strings whose letters are ASCII (host names and
  HTTP methods are): the ASCII letters change case, every other byte stays.
\<close>

definition lower_char :: "char \<Rightarrow> char" where
  "lower_char c = (case map_of (zip ascii_upper ascii_lower) c of None \<Rightarrow> c | Some l \<Rightarrow> l)"

definition upper_char :: "char \<Rightarrow> char" where
  "upper_char c = (case map_of (zip ascii_lower ascii_upper) c of None \<Rightarrow> c | Some u \<Rightarrow> u)"

definition lower :: "string \<Rightarrow> string" where
  "lower s = map lower_char s"

definition upper :: "string \<Rightarrow> string" where
  "upper s = map upper_char s"

fun digits_of :: "nat \<Rightarrow> string" where
  "digits_of n = (if n < 10 then [digits ! n] else digits_of (n div 10) @ [digits ! (n mod 10)])"

declare digits_of.simps [simp del]

text \<open>\<open>str(v)\<close> for a scalar.\<close>

fun py_str :: "pyatom \<Rightarrow> string" where
  "py_str ANone = ''None''"
| "py_str (ABool b) = (if b then ''True'' else ''False'')"
| "py_str (AInt i) = (if i < 0 then CHR ''-'' # digits_of (nat (- i)) else digits_of (nat i))"
| "py_str (AStr s) = s"

section \<open>Form encoding (\<open>urllib.parse.urlencode\<close>)\<close>

definition hex_upper :: string where
  "hex_upper = ''0123456789ABCDEF''"

definition always_safe :: string where
  "always_safe = ascii_upper @ ascii_lower @ digits @ ''_.-~''"

text \<open>
  \<open>quote_plus\<close> with its default arguments: the unreserved bytes stay, a space becomes
  \<open>+\<close>, every other byte becomes \<open>%XX\<close> in upper-case hexadecimal.
\<close>

definition quote_byte :: "char \<Rightarrow> string" where
  "quote_byte c =
     (if c \<in> set always_safe then [c]
      else if c = CHR '' '' then ''+''
      else [CHR ''%'', hex_upper ! (of_char c div 16), hex_upper ! (of_char c mod 16)])"

definition quote_plus :: "string \<Rightarrow> string" where
  "quote_plus s = concat (map quote_byte s)"

definition urlencode :: "qdict \<Rightarrow> string" where
  "urlencode query = join ''&'' (map (\<lambda>p. quote_plus (fst p) @ ''='' @ quote_plus (py_str (snd p))) query)"

section \<open>Base64 (\<open>base64.b64encode\<close>)\<close>

definition b64_alphabet :: string where
  "b64_alphabet = ascii_upper @ ascii_lower @ digits @ ''+/''"

definition b64_char :: "nat \<Rightarrow> char" where
  "b64_char n = b64_alphabet ! (n mod 64)"

fun b64encode :: "string \<Rightarrow> string" where
  "b64encode [] = []"
| "b64encode [a] =
     (let n = of_char a * 65536
      in [b64_char (n div 262144), b64_char (n div 4096), CHR ''='', CHR ''=''])"
| "b64encode [a, b] =
     (let n = of_char a * 65536 + of_char b * 256
      in [b64_char (n div 262144), b64_char (n div 4096), b64_char (n div 64), CHR ''=''])"
| "b64encode (a # b # c # rest) =
     (let n = of_char a * 65536 + of_char b * 256 + of_char c
      in [b64_char (n div 262144), b64_char (n div 4096), b64_char (n div 64), b64_char n]
         @ b64encode rest)"

section \<open>The client and its environment\<close>

record client =
  host :: string
  access_key :: string
  secret_key :: string

definition init :: "string \<Rightarrow> string \<Rightarrow> string \<Rightarrow> client" where
  "init h ak sk = \<lparr>host = h, access_key = ak, secret_key = sk\<rparr>"

record datetime =
  year :: nat
  month :: nat
  day :: nat
  hour :: nat
  minute :: nat
  second :: nat
  microsecond :: nat

text \<open>One call of \<open>AsyncHttpRequests.fetch\<close>; \<open>fc_data\<close> is \<open>None\<close> when no \<open>data\<close> is passed.\<close>

record fetch_call =
  fc_method :: string
  fc_url :: string
  fc_params :: "qdict option"
  fc_data :: "pyval option"
  fc_headers :: qdict
  fc_timeout :: nat

text \<open>
  What the module takes from outside: the standard library's HMAC-SHA256 digest
  (key, then message), the host name \<open>urllib.parse.urlparse\<close> finds in a URL
  (\<open>None\<close> when it finds none), \<open>urljoin\<close>, \<open>json.loads\<close>, the constant
  \<open>alpha.const.USER_AGENT\<close>, the clock, and the transport,
  which answers a call with \<open>(code, success, error)\<close>.
\<close>

record env =
  hmac_sha256 :: "string \<Rightarrow> string \<Rightarrow> string"
  urlparse_hostname :: "string \<Rightarrow> pyerr + string option"
  urljoin :: "string \<Rightarrow> string \<Rightarrow> pyerr + string"
  json_loads :: "string \<Rightarrow> pyerr + pyval"
  USER_AGENT :: string
  utcnow :: datetime
  fetch :: "fetch_call \<Rightarrow> pyval \<times> pyval \<times> pyval"

section \<open>The signer\<close>

definition is_url :: "string \<Rightarrow> bool" where
  "is_url s = (startswith s ''http://'' \<or> startswith s ''https://'')"

text \<open>The path \<open>generate_signature\<close> signs.\<close>

definition canonical_path :: "string \<Rightarrow> string" where
  "canonical_path request_path =
     (if is_url request_path then ''/'' @ join ''/'' (drop 3 (split_on CHR ''/'' request_path))
      else request_path)"

text \<open>
  The string \<open>generate_signature\<close> signs: the value of its local \<open>payload\<close> after the
  join.  \<open>None.lower()\<close> raises \<open>AttributeError\<close> when the URL has no host name.
\<close>

definition signing_payload :: "env \<Rightarrow> client \<Rightarrow> string \<Rightarrow> qdict \<Rightarrow> string \<Rightarrow> pyerr + string" where
  "signing_payload e c method params request_path =
     (case urlparse_hostname e (if is_url request_path then request_path else host c) of
        Inl err \<Rightarrow> Inl err
      | Inr None \<Rightarrow> Inl AttributeError
      | Inr (Some h) \<Rightarrow>
          (let host_url = lower h;
               path = canonical_path request_path;
               sorted_params = sort_key fst params;
               encode_params = urlencode sorted_params
           in Inr (join [CHR 0x0A] [method, host_url, path, encode_params])))"

definition generate_signature :: "env \<Rightarrow> client \<Rightarrow> string \<Rightarrow> qdict \<Rightarrow> string \<Rightarrow> pyerr + string" where
  "generate_signature e c method params request_path =
     (case signing_payload e c method params request_path of
        Inl err \<Rightarrow> Inl err
      | Inr payload \<Rightarrow> Inr (b64encode (hmac_sha256 e (secret_key c) payload)))"

section \<open>The dispatcher\<close>

text \<open>
  The state an operation runs in: the client object and the dicts that are passed by
  reference (query parameters, headers), each at an address below \<open>next_ref\<close>.
\<close>

record world =
  self :: client
  cells :: "nat \<Rightarrow> qdict"
  next_ref :: nat

definition alloc :: "world \<Rightarrow> qdict \<Rightarrow> nat \<times> world" where
  "alloc w d = (next_ref w, w\<lparr>cells := (cells w)(next_ref w := d), next_ref := Suc (next_ref w)\<rparr>)"

definition store :: "world \<Rightarrow> nat \<Rightarrow> qdict \<Rightarrow> world" where
  "store w a d = w\<lparr>cells := (cells w)(a := d)\<rparr>"

text \<open>\<open>x if x else {}\<close>: \<open>None\<close> and the empty dict are both replaced by a new dict.\<close>

definition or_new_dict :: "world \<Rightarrow> nat option \<Rightarrow> nat \<times> world" where
  "or_new_dict w r =
     (case r of
        None \<Rightarrow> alloc w []
      | Some a \<Rightarrow> if cells w a = [] then alloc w [] else (a, w))"

text \<open>A reference a caller can hold: \<open>None\<close>, or the address of an allocated dict.\<close>

definition valid_ref :: "world \<Rightarrow> nat option \<Rightarrow> bool" where
  "valid_ref w r = (case r of None \<Rightarrow> True | Some a \<Rightarrow> a < next_ref w)"

definition zero_pad :: "nat \<Rightarrow> nat \<Rightarrow> string" where
  "zero_pad width n = (let s = digits_of n in replicate (width - length s) CHR ''0'' @ s)"

text \<open>\<open>strftime("%Y-%m-%dT%H:%M:%S")\<close>.\<close>

definition strftime :: "datetime \<Rightarrow> string" where
  "strftime t =
     zero_pad 4 (year t) @ ''-'' @ zero_pad 2 (month t) @ ''-'' @ zero_pad 2 (day t) @ ''T''
     @ zero_pad 2 (hour t) @ '':'' @ zero_pad 2 (minute t) @ '':'' @ zero_pad 2 (second t)"



definition auth_fields :: "env \<Rightarrow> client \<Rightarrow> qdict" where
  "auth_fields e c =
     [(''AccessKeyId'', AStr (access_key c)),
      (''SignatureMethod'', AStr ''HmacSHA256''),
      (''SignatureVersion'', AStr ''2''),
      (''Timestamp'', AStr (strftime (utcnow e)))]"

text \<open>The \<open>if auth:\<close> block of \<open>request\<close>; the result is the reference bound to \<open>params\<close>.\<close>

definition sign_params ::
  "env \<Rightarrow> world \<Rightarrow> string \<Rightarrow> string \<Rightarrow> nat option \<Rightarrow> bool \<Rightarrow> (pyerr + nat option) \<times> world" where
  "sign_params e w method uri params auth =
     (if auth then
        (let (p, w1) = or_new_dict w params;
             w2 = store w1 p (dict_update (cells w1 p) (auth_fields e (self w1)))
         in case generate_signature e (self w2) method (cells w2 p) uri of
              Inl err \<Rightarrow> (Inl err, w2)
            | Inr signature \<Rightarrow>
                (Inr (Some p), store w2 p (setitem (cells w2 p) ''Signature'' (AStr signature))))
      else (Inr params, w))"

definition set_headers :: "env \<Rightarrow> string \<Rightarrow> qdict \<Rightarrow> qdict" where
  "set_headers e method h =
     (if method = ''GET'' then
        setitem (setitem h ''Content-type'' (AStr ''application/x-www-form-urlencoded''))
          ''User-Agent'' (AStr (USER_AGENT e))
      else
        setitem (setitem (setitem h ''Accept'' (AStr ''application/json''))
          ''Content-type'' (AStr ''application/json''))
          ''User-Agent'' (AStr (USER_AGENT e)))"

fun is_dict :: "pyval \<Rightarrow> bool" where
  "is_dict (PDict d) = True"
| "is_dict v = False"

text \<open>\<open>json.loads(v)\<close>: a \<open>TypeError\<close> unless \<open>v\<close> is a string.\<close>

fun loads :: "env \<Rightarrow> pyval \<Rightarrow> pyerr + pyval" where
  "loads e (Atom (AStr s)) = json_loads e s"
| "loads e v = Inl TypeError"

text \<open>\<open>v.get(k)\<close>: only a dict has the method.\<close>

fun get_item :: "pyval \<Rightarrow> string \<Rightarrow> pyerr + pyval" where
  "get_item (PDict d) k = Inr (case map_of d k of None \<Rightarrow> PNone | Some x \<Rightarrow> x)"
| "get_item v k = Inl AttributeError"

text \<open>
  The end of \<open>request\<close>, from \<open>if error:\<close> on: \<open>parse_success\<close> is the value bound
  to \<open>result\<close>.
\<close>

definition parse_success :: "env \<Rightarrow> pyval \<Rightarrow> pyerr + pyval" where
  "parse_success e success = (if is_dict success then Inr success else loads e success)"

definition response_pair :: "env \<Rightarrow> pyval \<Rightarrow> pyval \<Rightarrow> pyerr + pyval \<times> pyval" where
  "response_pair e success error =
     (if truthy error then Inr (PNone, error)
      else case parse_success e success of
             Inl err \<Rightarrow> Inl err
           | Inr result \<Rightarrow>
               (case get_item result ''status'' of
                  Inl err \<Rightarrow> Inl err
                | Inr status \<Rightarrow>
                    if status = PStr ''ok'' then Inr (result, PNone) else Inr (PNone, result)))"

type_synonym outcome = "(pyerr + pyval \<times> pyval) \<times> world \<times> fetch_call list"

definition result_of :: "outcome \<Rightarrow> pyerr + pyval \<times> pyval" where
  "result_of x = fst x"

definition world_of :: "outcome \<Rightarrow> world" where
  "world_of x = fst (snd x)"

definition calls_of :: "outcome \<Rightarrow> fetch_call list" where
  "calls_of x = snd (snd x)"

text \<open>
  \<open>request\<close> gives what the call returns or raises, the state it leaves, and the calls
  it made to the transport.
\<close>

definition request ::
  "env \<Rightarrow> world \<Rightarrow> string \<Rightarrow> string \<Rightarrow> nat option \<Rightarrow> pyval \<Rightarrow> nat option \<Rightarrow> bool \<Rightarrow> outcome" where
  "request e w method uri params body headers auth =
     (case (if is_url uri then Inr uri
            else urljoin e (host (self w)) uri) of
        Inl err \<Rightarrow> (Inl err, w, [])
      | Inr url \<Rightarrow>
          (case sign_params e w method uri params auth of
             (Inl err, w1) \<Rightarrow> (Inl err, w1, [])
           | (Inr params1, w1) \<Rightarrow>
               (let (h, w2) = or_new_dict w1 headers;
                    w3 = store w2 h (set_headers e method (cells w2 h));
                    call = \<lparr>fc_method = (if method = ''GET'' then ''GET'' else ''POST''),
                            fc_url = url,
                            fc_params = map_option (cells w3) params1,
                            fc_data = (if method = ''GET'' then None else Some body),
                            fc_headers = cells w3 h,
                            fc_timeout = 10\<rparr>;
                    (code, success, error) = fetch e call
                in (response_pair e success error, w3, [call]))))"

section \<open>Endpoint methods\<close>

text \<open>
  An optional argument is \<open>None\<close> when the caller leaves it out and takes its default
  then.  The arguments of the market-data methods go into the query string and are
  scalars; the arguments of the other methods go into the JSON body.
\<close>

definition default_to :: "'a \<Rightarrow> 'a option \<Rightarrow> 'a" where
  "default_to d a = (case a of None \<Rightarrow> d | Some v \<Rightarrow> v)"

text \<open>\<open>if v: d[k] = v\<close>\<close>

definition set_if_truthy :: "(string \<times> pyval) list \<Rightarrow> string \<Rightarrow> pyval \<Rightarrow> (string \<times> pyval) list" where
  "set_if_truthy d k v = (if truthy v then setitem d k v else d)"

definition set_if_truthy_atom :: "qdict \<Rightarrow> string \<Rightarrow> pyatom \<Rightarrow> qdict" where
  "set_if_truthy_atom d k v = (if truthy (Atom v) then setitem d k v else d)"

definition do_get :: "env \<Rightarrow> world \<Rightarrow> string \<Rightarrow> qdict \<Rightarrow> outcome" where
  "do_get e w uri params =
     (let (p, w1) = alloc w params in request e w1 ''GET'' uri (Some p) PNone None False)"

definition do_post :: "env \<Rightarrow> world \<Rightarrow> string \<Rightarrow> pyval \<Rightarrow> outcome" where
  "do_post e w uri body = request e w ''POST'' uri None body None True"

subsection \<open>Market data\<close>

definition get_swap_info_params :: "pyatom option \<Rightarrow> qdict" where
  "get_swap_info_params contract_code =
     set_if_truthy_atom [] ''contract_code'' (default_to ANone contract_code)"

definition get_swap_info :: "env \<Rightarrow> world \<Rightarrow> pyatom option \<Rightarrow> outcome" where
  "get_swap_info e w contract_code =
     do_get e w ''/linear-swap-api/v1/swap_contract_info'' (get_swap_info_params contract_code)"

definition get_price_limit_params :: "pyatom option \<Rightarrow> qdict" where
  "get_price_limit_params contract_code =
     set_if_truthy_atom [] ''contract_code'' (default_to ANone contract_code)"

definition get_price_limit :: "env \<Rightarrow> world \<Rightarrow> pyatom option \<Rightarrow> outcome" where
  "get_price_limit e w contract_code =
     do_get e w ''/linear-swap-api/v1/swap_price_limit'' (get_price_limit_params contract_code)"

definition get_orderbook_params :: "pyatom \<Rightarrow> qdict" where
  "get_orderbook_params contract_code =
     [(''contract_code'', contract_code), (''type'', AStr ''step0'')]"

definition get_orderbook :: "env \<Rightarrow> world \<Rightarrow> pyatom \<Rightarrow> outcome" where
  "get_orderbook e w contract_code =
     do_get e w ''/linear-swap-ex/market/depth'' (get_orderbook_params contract_code)"

definition get_klines_params ::
  "pyatom \<Rightarrow> pyatom \<Rightarrow> pyatom option \<Rightarrow> pyatom option \<Rightarrow> pyatom option \<Rightarrow> qdict" where
  "get_klines_params contract_code period size' sfrom to =
     (let params = [(''contract_code'', contract_code), (''period'', period)];
          params = set_if_truthy_atom params ''size'' (default_to ANone size');
          params = set_if_truthy_atom params ''from'' (default_to ANone sfrom)
      in set_if_truthy_atom params ''to'' (default_to ANone to))"

definition get_klines ::
  "env \<Rightarrow> world \<Rightarrow> pyatom \<Rightarrow> pyatom \<Rightarrow> pyatom option \<Rightarrow> pyatom option \<Rightarrow> pyatom option \<Rightarrow> outcome" where
  "get_klines e w contract_code period size' sfrom to =
     do_get e w ''/linear-swap-ex/market/history/kline''
       (get_klines_params contract_code period size' sfrom to)"

definition get_merged_data :: "env \<Rightarrow> world \<Rightarrow> pyatom \<Rightarrow> outcome" where
  "get_merged_data e w contract_code =
     do_get e w ''/linear-swap-ex/market/detail/merged'' [(''contract_code'', contract_code)]"

definition get_funding_rate :: "env \<Rightarrow> world \<Rightarrow> pyatom \<Rightarrow> outcome" where
  "get_funding_rate e w contract_code =
     do_get e w ''/linear-swap-ex/v1/swap_funding_rate'' [(''contract_code'', contract_code)]"

subsection \<open>Account, orders, transfers\<close>

definition get_asset_info_body :: "pyval option \<Rightarrow> (string \<times> pyval) list" where
  "get_asset_info_body margin_account =
     set_if_truthy [] ''margin_account'' (default_to PNone margin_account)"

definition get_asset_info :: "env \<Rightarrow> world \<Rightarrow> pyval option \<Rightarrow> outcome" where
  "get_asset_info e w margin_account =
     do_post e w ''/linear-swap-api/v1/swap_cross_account_info''
       (PDict (get_asset_info_body margin_account))"

definition get_position_body :: "pyval option \<Rightarrow> (string \<times> pyval) list" where
  "get_position_body contract_code =
     set_if_truthy [] ''contract_code'' (default_to PNone contract_code)"

definition get_position :: "env \<Rightarrow> world \<Rightarrow> pyval option \<Rightarrow> outcome" where
  "get_position e w contract_code =
     do_post e w ''/linear-swap-api/v1/swap_cross_position_info''
       (PDict (get_position_body contract_code))"

definition get_account_position :: "env \<Rightarrow> world \<Rightarrow> pyval \<Rightarrow> outcome" where
  "get_account_position e w margin_account =
     do_post e w ''/linear-swap-api/v1/swap_cross_account_position_info''
       (PDict [(''margin_account'', margin_account)])"

text \<open>
  \<open>kwargs\<close> holds the keyword arguments that match no named parameter; an entry is
  copied into the body unless its value is \<open>None\<close>.
\<close>

definition add_kwarg ::
  "(string \<times> pyval) list \<Rightarrow> (string \<times> pyval) list \<Rightarrow> string \<times> pyval \<Rightarrow> (string \<times> pyval) list" where
  "add_kwarg kwargs body kv =
     (case map_of kwargs (fst kv) of
        None \<Rightarrow> body
      | Some x \<Rightarrow> if x = PNone then body else setitem body (fst kv) (snd kv))"

definition create_order_body ::
  "pyval \<Rightarrow> pyval \<Rightarrow> pyval \<Rightarrow> pyval \<Rightarrow> pyval \<Rightarrow> pyval \<Rightarrow> pyval \<Rightarrow> pyval option \<Rightarrow>
   (string \<times> pyval) list \<Rightarrow> (string \<times> pyval) list" where
  "create_order_body contract_code price quantity direction offset lever_rate order_price_type
       client_order_id kwargs =
     (let body = [(''contract_code'', contract_code),
                  (''price'', price),
                  (''volume'', quantity),
                  (''direction'', direction),
                  (''offset'', offset),
                  (''lever_rate'', lever_rate),
                  (''order_price_type'', order_price_type)];
          body = set_if_truthy body ''client_order_id'' (default_to PNone client_order_id)
      in foldl (add_kwarg kwargs) body kwargs)"

definition create_order ::
  "env \<Rightarrow> world \<Rightarrow> pyval \<Rightarrow> pyval \<Rightarrow> pyval \<Rightarrow> pyval \<Rightarrow> pyval \<Rightarrow> pyval \<Rightarrow> pyval \<Rightarrow> pyval option \<Rightarrow>
   (string \<times> pyval) list \<Rightarrow> outcome" where
  "create_order e w contract_code price quantity direction offset lever_rate order_price_type
       client_order_id kwargs =
     do_post e w ''/linear-swap-api/v1/swap_cross_order''
       (PDict (create_order_body contract_code price quantity direction offset lever_rate
          order_price_type client_order_id kwargs))"

definition create_orders :: "env \<Rightarrow> world \<Rightarrow> pyval \<Rightarrow> outcome" where
  "create_orders e w orders_data =
     do_post e w ''/linear-swap-api/v1/swap_cross_batchorder'' orders_data"

definition revoke_order_body :: "pyval \<Rightarrow> pyval option \<Rightarrow> pyval option \<Rightarrow> (string \<times> pyval) list" where
  "revoke_order_body contract_code order_id client_order_id =
     (let body = [(''contract_code'', contract_code)];
          body = set_if_truthy body ''order_id'' (default_to PNone order_id)
      in set_if_truthy body ''client_order_id'' (default_to PNone client_order_id))"

definition revoke_order :: "env \<Rightarrow> world \<Rightarrow> pyval \<Rightarrow> pyval option \<Rightarrow> pyval option \<Rightarrow> outcome" where
  "revoke_order e w contract_code order_id client_order_id =
     do_post e w ''/linear-swap-api/v1/swap_cross_cancel''
       (PDict (revoke_order_body contract_code order_id client_order_id))"

text \<open>
  \<open>",".join(xs)\<close> for a list \<open>xs\<close>: a \<open>TypeError\<close> unless every element is a string.
\<close>

fun str_items :: "pyval list \<Rightarrow> pyerr + string list" where
  "str_items [] = Inr []"
| "str_items (Atom (AStr s) # vs) =
     (case str_items vs of Inl err \<Rightarrow> Inl err | Inr ss \<Rightarrow> Inr (s # ss))"
| "str_items (v # vs) = Inl TypeError"

definition comma_join :: "pyval list \<Rightarrow> pyerr + pyval" where
  "comma_join xs = (case str_items xs of Inl err \<Rightarrow> Inl err | Inr ss \<Rightarrow> Inr (PStr (join '','' ss)))"

text \<open>\<open>if ids: body[k] = ",".join(ids)\<close>, for an argument that is a list or \<open>None\<close>.\<close>

definition set_joined ::
  "(string \<times> pyval) list \<Rightarrow> string \<Rightarrow> pyval list option \<Rightarrow> pyerr + (string \<times> pyval) list" where
  "set_joined body k ids =
     (case ids of
        None \<Rightarrow> Inr body
      | Some xs \<Rightarrow>
          if xs = [] then Inr body
          else (case comma_join xs of Inl err \<Rightarrow> Inl err | Inr v \<Rightarrow> Inr (setitem body k v)))"

definition id_lists_body ::
  "pyval \<Rightarrow> pyval list option \<Rightarrow> pyval list option \<Rightarrow> pyerr + (string \<times> pyval) list" where
  "id_lists_body contract_code order_ids client_order_ids =
     (case set_joined [(''contract_code'', contract_code)] ''order_id'' order_ids of
        Inl err \<Rightarrow> Inl err
      | Inr body \<Rightarrow> set_joined body ''client_order_id'' client_order_ids)"

definition revoke_orders_body ::
  "pyval \<Rightarrow> pyval list option \<Rightarrow> pyval list option \<Rightarrow> pyerr + (string \<times> pyval) list" where
  "revoke_orders_body contract_code order_ids client_order_ids =
     id_lists_body contract_code order_ids client_order_ids"

definition revoke_orders ::
  "env \<Rightarrow> world \<Rightarrow> pyval \<Rightarrow> pyval list option \<Rightarrow> pyval list option \<Rightarrow> outcome" where
  "revoke_orders e w contract_code order_ids client_order_ids =
     (case revoke_orders_body contract_code order_ids client_order_ids of
        Inl err \<Rightarrow> (Inl err, w, [])
      | Inr body \<Rightarrow> do_post e w ''/linear-swap-api/v1/swap_cross_cancel'' (PDict body))"

definition revoke_order_all :: "env \<Rightarrow> world \<Rightarrow> pyval \<Rightarrow> outcome" where
  "revoke_order_all e w contract_code =
     do_post e w ''/linear-swap-api/v1/swap_cross_cancelall''
       (PDict [(''contract_code'', contract_code)])"

definition get_order_info_body ::
  "pyval \<Rightarrow> pyval list option \<Rightarrow> pyval list option \<Rightarrow> pyerr + (string \<times> pyval) list" where
  "get_order_info_body contract_code order_ids client_order_ids =
     id_lists_body contract_code order_ids client_order_ids"

definition get_order_info ::
  "env \<Rightarrow> world \<Rightarrow> pyval \<Rightarrow> pyval list option \<Rightarrow> pyval list option \<Rightarrow> outcome" where
  "get_order_info e w contract_code order_ids client_order_ids =
     (case get_order_info_body contract_code order_ids client_order_ids of
        Inl err \<Rightarrow> (Inl err, w, [])
      | Inr body \<Rightarrow> do_post e w ''/linear-swap-api/v1/swap_cross_order_info'' (PDict body))"

definition get_order_detail_body ::
  "pyval \<Rightarrow> pyval \<Rightarrow> pyval option \<Rightarrow> pyval option \<Rightarrow> pyval option \<Rightarrow> pyval option \<Rightarrow>
   (string \<times> pyval) list" where
  "get_order_detail_body contract_code order_id created_at order_type page_index page_size =
     (let body = [(''contract_code'', contract_code),
                  (''order_id'', order_id),
                  (''page_index'', default_to (PInt 1) page_index),
                  (''page_size'', default_to (PInt 20) page_size)];
          body = set_if_truthy body ''created_at'' (default_to PNone created_at)
      in set_if_truthy body ''order_type'' (default_to PNone order_type))"

definition get_order_detail ::
  "env \<Rightarrow> world \<Rightarrow> pyval \<Rightarrow> pyval \<Rightarrow> pyval option \<Rightarrow> pyval option \<Rightarrow> pyval option \<Rightarrow> pyval option \<Rightarrow>
   outcome" where
  "get_order_detail e w contract_code order_id created_at order_type page_index page_size =
     do_post e w ''/linear-swap-api/v1/swap_cross_order_detail''
       (PDict (get_order_detail_body contract_code order_id created_at order_type page_index page_size))"

definition get_open_orders :: "env \<Rightarrow> world \<Rightarrow> pyval \<Rightarrow> pyval option \<Rightarrow> pyval option \<Rightarrow> outcome" where
  "get_open_orders e w contract_code index size' =
     do_post e w ''/linear-swap-api/v1/swap_cross_openorders''
       (PDict [(''contract_code'', contract_code),
               (''page_index'', default_to (PInt 1) index),
               (''page_size'', default_to (PInt 50) size')])"

definition get_history_orders ::
  "env \<Rightarrow> world \<Rightarrow> pyval \<Rightarrow> pyval \<Rightarrow> pyval \<Rightarrow> pyval \<Rightarrow> pyval \<Rightarrow> pyval option \<Rightarrow> pyval option \<Rightarrow> outcome" where
  "get_history_orders e w contract_code trade_type stype status create_date page_index page_size =
     do_post e w ''/linear-swap-api/v1/swap_cross_hisorders''
       (PDict [(''contract_code'', contract_code),
               (''trade_type'', trade_type),
               (''type'', stype),
               (''status'', status),
               (''create_date'', create_date),
               (''page_index'', default_to (PInt 0) page_index),
               (''page_size'', default_to (PInt 50) page_size)])"

definition transfer_inner :: "env \<Rightarrow> world \<Rightarrow> pyval \<Rightarrow> pyval \<Rightarrow> pyval \<Rightarrow> pyval \<Rightarrow> outcome" where
  "transfer_inner e w asset from' to amount =
     do_post e w ''/linear-swap-api/v1/swap_transfer_inner''
       (PDict [(''asset'', asset),
               (''from_margin_account'', from'),
               (''to_margin_account'', to),
               (''amount'', amount)])"

definition transfer_between_spot_swap ::
  "env \<Rightarrow> world \<Rightarrow> pyval \<Rightarrow> pyval \<Rightarrow> pyval \<Rightarrow> pyval \<Rightarrow> pyval option \<Rightarrow> outcome" where
  "transfer_between_spot_swap e w margin_account amount from' to currency =
     do_post e w ''https://api.huobi.pro/v2/account/transfer''
       (PDict [(''from'', from'),
               (''to'', to),
               (''amount'', amount),
               (''margin-account'', margin_account),
               (''currency'', default_to (PStr ''USDT'') currency)])"

subsection \<open>Trigger orders\<close>

definition create_trigger_order ::
  "env \<Rightarrow> world \<Rightarrow> pyval \<Rightarrow> pyval \<Rightarrow> pyval \<Rightarrow> pyval \<Rightarrow> pyval \<Rightarrow> pyval \<Rightarrow> pyval \<Rightarrow> pyval \<Rightarrow> pyval \<Rightarrow>
   outcome" where
  "create_trigger_order e w contract_code trigger_type trigger_price order_price order_price_type
       volume direction offset lever_rate =
     do_post e w ''/linear-swap-api/v1/swap_cross_trigger_order''
       (PDict [(''contract_code'', contract_code),
               (''trigger_type'', trigger_type),
               (''trigger_price'', trigger_price),
               (''order_price'', order_price),
               (''order_price_type'', order_price_type),
               (''volume'', volume),
               (''direction'', direction),
               (''offset'', offset),
               (''lever_rate'', lever_rate)])"

definition revoke_trigger_order :: "env \<Rightarrow> world \<Rightarrow> pyval \<Rightarrow> pyval \<Rightarrow> outcome" where
  "revoke_trigger_order e w contract_code order_id =
     do_post e w ''/linear-swap-api/v1/swap_cross_trigger_cancel''
       (PDict [(''contract_code'', contract_code), (''order_id'', order_id)])"

definition revoke_all_trigger_orders :: "env \<Rightarrow> world \<Rightarrow> pyval \<Rightarrow> outcome" where
  "revoke_all_trigger_orders e w contract_code =
     do_post e w ''/linear-swap-api/v1/swap_cross_trigger_cancelall''
       (PDict [(''contract_code'', contract_code)])"

definition get_trigger_openorders_body :: "pyval \<Rightarrow> pyval option \<Rightarrow> pyval option \<Rightarrow> (string \<times> pyval) list" where
  "get_trigger_openorders_body contract_code page_index page_size =
     (let body = [(''contract_code'', contract_code)];
          body = set_if_truthy body ''page_index'' (default_to PNone page_index)
      in set_if_truthy body ''page_size'' (default_to PNone page_size))"

definition get_trigger_openorders ::
  "env \<Rightarrow> world \<Rightarrow> pyval \<Rightarrow> pyval option \<Rightarrow> pyval option \<Rightarrow> outcome" where
  "get_trigger_openorders e w contract_code page_index page_size =
     do_post e w ''/linear-swap-api/v1/swap_cross_trigger_openorders''
       (PDict (get_trigger_openorders_body contract_code page_index page_size))"

text \<open>
  Reading a name: a local variable, else a name bound at module level, else
  \<open>NameError\<close>.  The module binds its imports, \<open>__all__\<close> and the class.
\<close>

definition module_globals :: "string list" where
  "module_globals =
     [''gzip'', ''json'', ''copy'', ''hmac'', ''base64'', ''urllib'', ''hashlib'', ''datetime'',
      ''time'', ''urljoin'', ''AsyncHttpRequests'', ''USER_AGENT'', ''__all__'',
      ''HuobiUsdtSwapCrossRestAPI'']"

definition load_name :: "(string \<times> pyval) list \<Rightarrow> string \<Rightarrow> pyerr + pyval" where
  "load_name locals n =
     (case map_of locals n of
        Some v \<Rightarrow> Inr v
      | None \<Rightarrow> if n \<in> set module_globals then Inr (PObj n) else Inl (NameError n))"

text \<open>
  \<open>get_trigger_hisorders\<close> has the parameters \<open>contract_code\<close>, \<open>status\<close>,
  \<open>create_date\<close>, \<open>page_index\<close> and \<open>page_size\<close>, and its dict display reads the
  name \<open>trade_type\<close>.
\<close>

definition get_trigger_hisorders_body ::
  "pyval \<Rightarrow> pyval \<Rightarrow> pyval \<Rightarrow> pyval option \<Rightarrow> pyval option \<Rightarrow> pyerr + (string \<times> pyval) list" where
  "get_trigger_hisorders_body contract_code status create_date page_index page_size =
     (let locals = [(''contract_code'', contract_code),
                    (''status'', status),
                    (''create_date'', create_date),
                    (''page_index'', default_to PNone page_index),
                    (''page_size'', default_to PNone page_size),
                    (''uri'', PStr ''/linear-swap-api/v1/swap_cross_trigger_hisorders'')]
      in case load_name locals ''trade_type'' of
           Inl err \<Rightarrow> Inl err
         | Inr trade_type \<Rightarrow>
             (let body = [(''contract_code'', contract_code),
                          (''trade_type'', trade_type),
                          (''status'', status),
                          (''create_date'', create_date)];
                  body = set_if_truthy body ''page_index'' (default_to PNone page_index)
              in Inr (set_if_truthy body ''page_size'' (default_to PNone page_size))))"

definition get_trigger_hisorders ::
  "env \<Rightarrow> world \<Rightarrow> pyval \<Rightarrow> pyval \<Rightarrow> pyval \<Rightarrow> pyval option \<Rightarrow> pyval option \<Rightarrow> outcome" where
  "get_trigger_hisorders e w contract_code status create_date page_index page_size =
     (case get_trigger_hisorders_body contract_code status create_date page_index page_size of
        Inl err \<Rightarrow> (Inl err, w, [])
      | Inr body \<Rightarrow> do_post e w ''/linear-swap-api/v1/swap_cross_trigger_hisorders'' (PDict body))"

definition lightning_close_position_body ::
  "pyval \<Rightarrow> pyval \<Rightarrow> pyval \<Rightarrow> pyval option \<Rightarrow> pyval option \<Rightarrow> (string \<times> pyval) list" where
  "lightning_close_position_body contract_code volume direction client_order_id order_price_type =
     (let body = [(''contract_code'', contract_code),
                  (''volume'', volume),
                  (''direction'', direction)];
          body = set_if_truthy body ''client_order_id'' (default_to PNone client_order_id)
      in set_if_truthy body ''order_price_type'' (default_to PNone order_price_type))"

definition lightning_close_position ::
  "env \<Rightarrow> world \<Rightarrow> pyval \<Rightarrow> pyval \<Rightarrow> pyval \<Rightarrow> pyval option \<Rightarrow> pyval option \<Rightarrow> outcome" where
  "lightning_close_position e w contract_code volume direction client_order_id order_price_type =
     do_post e w ''/linear-swap-api/v1/swap_cross_lightning_close_position''
       (PDict (lightning_close_position_body contract_code volume direction client_order_id
          order_price_type))"

section \<open>The payload as the specification words it\<close>

text \<open>
  The four lines of the specification: the method in upper case, the host in lower case,
  the canonical path, and the form-encoded parameters sorted by key.
\<close>

definition spec_payload :: "string \<Rightarrow> string \<Rightarrow> string \<Rightarrow> qdict \<Rightarrow> string" where
  "spec_payload method hostname path params =
     upper method @ [CHR 0x0A] @ lower hostname @ [CHR 0x0A] @ path @ [CHR 0x0A]
     @ urlencode (sort_key fst params)"

section \<open>A sample environment\<close>

text \<open>
  The examples run the client against \<open>https://api.hbdm.com\<close>.  The library functions
  of \<open>sample_env\<close> answer as the standard library does on the arguments the examples
  pass: \<open>urlparse\<close> on the two URLs below and on the scheme alone, \<open>urljoin\<close> of the
  host with an absolute path, \<open>json.loads\<close> on \<open>[]\<close> and \<open>{}\<close>.  The digest is a
  stand-in, since no example depends on its value.
\<close>

definition sample_client :: client where
  "sample_client = init ''https://api.hbdm.com'' ''ak'' ''sk''"

definition sample_clock :: datetime where
  "sample_clock = \<lparr>year = 2024, month = 1, day = 1, hour = 0, minute = 0, second = 0, microsecond = 0\<rparr>"

definition sample_hostname :: "string \<Rightarrow> pyerr + string option" where
  "sample_hostname u =
     (if u = ''https://api.hbdm.com'' then Inr (Some ''api.hbdm.com'')
      else if u = ''https://api.huobi.pro/v2/account/transfer'' then Inr (Some ''api.huobi.pro'')
      else Inr None)"

definition sample_loads :: "string \<Rightarrow> pyerr + pyval" where
  "sample_loads s =
     (if s = ''[]'' then Inr (PList [])
      else if s = ''{}'' then Inr (PDict [])
      else Inl JSONDecodeError)"

definition sample_env :: "(fetch_call \<Rightarrow> pyval \<times> pyval \<times> pyval) \<Rightarrow> env" where
  "sample_env transport =
     \<lparr>hmac_sha256 = (\<lambda>key msg. key @ msg),
      urlparse_hostname = sample_hostname,
      urljoin = (\<lambda>base url. Inr (base @ url)),
      json_loads = sample_loads,
      USER_AGENT = ''AlphaQuant'',
      utcnow = sample_clock,
      fetch = transport\<rparr>"

definition sample_world :: world where
  "sample_world = \<lparr>self = sample_client, cells = (\<lambda>a. []), next_ref = 0\<rparr>"

text \<open>A transport that answers every call with the same \<open>success\<close> and \<open>error\<close>.\<close>

definition reply_with :: "pyval \<Rightarrow> pyval \<Rightarrow> fetch_call \<Rightarrow> pyval \<times> pyval \<times> pyval" where
  "reply_with success error call = (PInt 200, success, error)"

text \<open>
  The mapping the caller passed as \<open>params\<close> (empty when it passed none), and that
  mapping after the four authentication fields have been merged into it.
\<close>

definition caller_params :: "world \<Rightarrow> nat option \<Rightarrow> qdict" where
  "caller_params w params = (case params of None \<Rightarrow> [] | Some a \<Rightarrow> cells w a)"

definition merged_params :: "env \<Rightarrow> world \<Rightarrow> nat option \<Rightarrow> qdict" where
  "merged_params e w params = dict_update (caller_params w params) (auth_fields e (self w))"

text \<open>
  A state in which the caller holds one dict, at address 0, and the error envelope the
  exchange sends for a rejected order.
\<close>

definition world_with :: "qdict \<Rightarrow> world" where
  "world_with d = \<lparr>self = sample_client, cells = (\<lambda>a. [])(0 := d), next_ref = 1\<rparr>"





section \<open>Evaluation rules\<close>

lemmas sample_defs = sample_env_def sample_client_def sample_hostname_def sample_loads_def
  sample_clock_def sample_world_def init_def reply_with_def

lemmas string_defs = is_url_def startswith_def canonical_path_def lower_def lower_char_def
  upper_def upper_char_def ascii_upper_def ascii_lower_def digits_def

lemmas encode_defs = urlencode_def quote_plus_def quote_byte_def always_safe_def hex_upper_def
  ascii_upper_def ascii_lower_def digits_def

section \<open>The signer: what is signed\<close>

lemma filter_key_distinct:
  "distinct (map fst xs) \<Longrightarrow> k \<in> set xs \<Longrightarrow> filter (\<lambda>x. fst k = fst x) xs = [k]"
proof (induction xs)
  case Nil
  then show ?case by simp
next
  case (Cons a xs)
  have fresh: "fst a \<notin> fst ` set xs" using Cons.prems(1) by simp
  show ?case
  proof (cases "k = a")
    case True
    from fresh have "\<forall>x\<in>set xs. fst x \<noteq> fst a" by (metis imageI)
    then have "filter (\<lambda>x. fst a = fst x) xs = []" by (auto simp: filter_empty_conv)
    with True show ?thesis by simp
  next
    case False
    with Cons.prems have kin: "k \<in> set xs" and d: "distinct (map fst xs)" by auto
    from fresh kin have "fst k \<noteq> fst a" by (metis imageI)
    with Cons.IH [OF d kin] show ?thesis by simp
  qed
qed

lemma sorted_items_perm:
  assumes "distinct (map fst P)" and "mset P' = mset P"
  shows "sort_key fst P' = sort_key fst P"
proof (rule properties_for_sort_key)
  show "mset (sort_key fst P) = mset P'" using assms by simp
  show "sorted (map fst (sort_key fst P))" by simp
  fix k assume "k \<in> set (sort_key fst P)"
  then have kP: "k \<in> set P" by simp
  have "mset (map fst P') = mset (map fst P)" using assms(2) by (metis mset_map)
  then have d': "distinct (map fst P')" using assms(1) by (metis mset_eq_imp_distinct_iff)
  have kP': "k \<in> set P'" using kP assms(2) by (metis set_mset_mset)
  have "filter (\<lambda>x. fst k = fst x) (sort_key fst P) = filter (\<lambda>x. fst k = fst x) P"
    using sort_key_stable [of fst "fst k" P] by (simp add: eq_commute)
  also have "\<dots> = [k]" by (rule filter_key_distinct [OF assms(1) kP])
  also have "\<dots> = filter (\<lambda>x. fst k = fst x) P'" by (rule filter_key_distinct [OF d' kP', symmetric])
  finally show "filter (\<lambda>x. fst k = fst x) (sort_key fst P) = filter (\<lambda>x. fst k = fst x) P'" .
qed

lemma signing_payload_found:
  assumes "urlparse_hostname e (if is_url path then path else host c) = Inr (Some h)"
  shows "signing_payload e c method params path =
           Inr (method @ [CHR 0x0A] @ lower h @ [CHR 0x0A] @ canonical_path path @ [CHR 0x0A]
                @ urlencode (sort_key fst params))"
  using assms by (simp add: signing_payload_def)

text \<open>
  Claim C1, as the code has it.  Whenever the URL parser finds a host name \<open>h\<close> (in the
  request path when that is a full URL, in the client's host otherwise),
  \<open>generate_signature\<close> returns the base64 encoding of the HMAC-SHA256 digest, keyed
  with the secret key, of four lines joined by a line feed: the method exactly as it was
  passed, \<open>h\<close> in lower case, the canonical path, and the form-encoded parameters sorted
  by key.  The method is not put into upper case; the payload is the specification's
  whenever the caller passes the method in upper case.
\<close>

theorem generate_signature_payload:
  assumes "urlparse_hostname e (if is_url path then path else host c) = Inr (Some h)"
  shows "generate_signature e c method params path =
           Inr (b64encode (hmac_sha256 e (secret_key c)
                  (method @ [CHR 0x0A] @ lower h @ [CHR 0x0A] @ canonical_path path @ [CHR 0x0A]
                   @ urlencode (sort_key fst params))))
         \<and> sorted (map fst (sort_key fst params))
         \<and> mset (sort_key fst params) = mset params
         \<and> (upper method = method \<longrightarrow>
              signing_payload e c method params path
                = Inr (spec_payload method h (canonical_path path) params))"
  using signing_payload_found [OF assms]
  by (simp add: generate_signature_def spec_payload_def)

text \<open>
  The theorem of C1 at a \<open>POST\<close> of two parameters given out of order, against the
  sample host.
\<close>

theorem generate_signature_payload_witness:
  "urlparse_hostname (sample_env (reply_with PNone PNone))
       (if is_url ''/p'' then ''/p'' else host sample_client) = Inr (Some ''api.hbdm.com'')
   \<and> upper ''POST'' = ''POST''
   \<and> generate_signature (sample_env (reply_with PNone PNone)) sample_client ''POST''
        [(''b'', AInt 2), (''a'', AStr ''x y'')] ''/p''
      = Inr (b64encode (''sk'' @ ''POST\<newline>api.hbdm.com\<newline>/p\<newline>a=x+y&b=2''))
   \<and> signing_payload (sample_env (reply_with PNone PNone)) sample_client ''POST''
        [(''b'', AInt 2), (''a'', AStr ''x y'')] ''/p''
      = Inr (spec_payload ''POST'' ''api.hbdm.com'' ''/p'' [(''b'', AInt 2), (''a'', AStr ''x y'')])"
proof -
  let ?E = "sample_env (reply_with PNone PNone)"
  let ?P = "[(''b'', AInt 2), (''a'', AStr ''x y'')]"
  have h: "urlparse_hostname ?E (if is_url ''/p'' then ''/p'' else host sample_client)
             = Inr (Some ''api.hbdm.com'')"
    by (simp add: sample_defs string_defs)
  have u: "upper ''POST'' = ''POST''" by (simp add: string_defs)
  note main = generate_signature_payload [OF h, of "''POST''" ?P]
  have enc: "urlencode (sort_key fst ?P) = ''a=x+y&b=2''"
    by (simp add: encode_defs digits_of.simps)
  have low: "lower ''api.hbdm.com'' = ''api.hbdm.com''" by (simp add: string_defs)
  have cp: "canonical_path ''/p'' = ''/p''" by (simp add: string_defs)
  have msg: "hmac_sha256 ?E (secret_key sample_client)
               (''POST'' @ [CHR 0x0A] @ lower ''api.hbdm.com'' @ [CHR 0x0A] @ canonical_path ''/p''
                @ [CHR 0x0A] @ urlencode (sort_key fst ?P))
             = ''sk'' @ ''POST\<newline>api.hbdm.com\<newline>/p\<newline>a=x+y&b=2''"
    unfolding enc low cp by (simp add: sample_env_def sample_client_def init_def)
  have sig: "generate_signature ?E sample_client ''POST'' ?P ''/p''
               = Inr (b64encode (''sk'' @ ''POST\<newline>api.hbdm.com\<newline>/p\<newline>a=x+y&b=2''))"
    using main unfolding msg by (rule conjunct1)
  have sp: "signing_payload ?E sample_client ''POST'' ?P ''/p''
              = Inr (spec_payload ''POST'' ''api.hbdm.com'' ''/p'' ?P)"
    using main u unfolding cp by blast
  show ?thesis by (intro conjI) (rule h u sig sp)+
qed

text \<open>
  Claim C1 as stated fails on a method in lower case: the first line of the payload is
  \<open>get\<close>, where the specification's payload has \<open>GET\<close>.
\<close>

theorem generate_signature_lowercase_method_counterexample:
  "signing_payload (sample_env (reply_with PNone PNone)) sample_client ''get'' [] ''/p''
     = Inr ''get\<newline>api.hbdm.com\<newline>/p\<newline>''
   \<and> spec_payload ''get'' ''api.hbdm.com'' ''/p'' [] = ''GET\<newline>api.hbdm.com\<newline>/p\<newline>''
   \<and> signing_payload (sample_env (reply_with PNone PNone)) sample_client ''get'' [] ''/p''
     \<noteq> Inr (spec_payload ''get'' ''api.hbdm.com'' ''/p'' [])"
  by (simp add: signing_payload_def spec_payload_def sample_defs string_defs encode_defs)

section \<open>The signer: determinism\<close>

text \<open>
  Claim C5.  The signature is a function of the method, the entries of the parameter
  mapping and the path, given the secret key and the host of the client: two calls that
  agree on these return the same signature (or raise the same error), whatever the order
  in which the entries were inserted, and whatever the clock, the transport and the
  access key are.
\<close>

theorem generate_signature_deterministic:
  assumes "distinct (map fst P)" and "mset P' = mset P"
    and "hmac_sha256 e' = hmac_sha256 e" and "urlparse_hostname e' = urlparse_hostname e"
    and "host c' = host c" and "secret_key c' = secret_key c"
  shows "generate_signature e' c' M P' path = generate_signature e c M P path"
proof -
  have items: "sort_key fst P' = sort_key fst P"
    by (rule sorted_items_perm [OF assms(1,2)])
  show ?thesis
    unfolding generate_signature_def signing_payload_def items assms(3-6) by (rule refl)
qed

text \<open>
  The theorem of C5 at two insertion orders of the same two parameters, with a different
  transport and access key on the left.
\<close>

theorem generate_signature_deterministic_witness:
  "distinct (map fst [(''b'', AInt 2), (''a'', AStr ''x y'')])
   \<and> mset [(''a'', AStr ''x y''), (''b'', AInt 2)] = mset [(''b'', AInt 2), (''a'', AStr ''x y'')]
   \<and> generate_signature (sample_env (reply_with PNone (PStr ''timeout''))) (sample_client\<lparr>access_key := ''other''\<rparr>)
        ''GET'' [(''a'', AStr ''x y''), (''b'', AInt 2)] ''/p''
     = generate_signature (sample_env (reply_with PNone PNone)) sample_client
        ''GET'' [(''b'', AInt 2), (''a'', AStr ''x y'')] ''/p''"
proof -
  have d: "distinct (map fst [(''b'', AInt 2), (''a'', AStr ''x y'')])" by simp
  have m: "mset [(''a'', AStr ''x y''), (''b'', AInt 2)] = mset [(''b'', AInt 2), (''a'', AStr ''x y'')]"
    by (simp add: add_mset_commute)
  show ?thesis
    using generate_signature_deterministic [OF d m, of
        "sample_env (reply_with PNone (PStr ''timeout''))" "sample_env (reply_with PNone PNone)"
        "sample_client\<lparr>access_key := ''other''\<rparr>" sample_client "''GET''" "''/p''"] d m
    by (simp add: sample_env_def sample_client_def init_def)
qed

section \<open>Dictionaries and the timestamp: basic facts\<close>

lemma map_of_setitem: "map_of (setitem d k v) = (map_of d)(k \<mapsto> v)"
  by (induction d) (auto simp: fun_eq_iff)

lemma keys_setitem: "set (keys (setitem d k v)) = insert k (set (keys d))"
  by (induction d) (auto simp: keys_def)


lemma distinct_setitem: "distinct (keys d) \<Longrightarrow> distinct (keys (setitem d k v))"
proof (induction d)
  case Nil
  then show ?case by (simp add: keys_def)
next
  case (Cons p d)
  have "set (map fst (setitem d k v)) = insert k (set (map fst d))"
    using keys_setitem [of d k v] by (simp add: keys_def)
  with Cons show ?case by (auto simp: keys_def)
qed

lemma dict_update_auth_fields:
  "dict_update d (auth_fields e c) =
     setitem (setitem (setitem (setitem d ''AccessKeyId'' (AStr (access_key c)))
       ''SignatureMethod'' (AStr ''HmacSHA256'')) ''SignatureVersion'' (AStr ''2''))
       ''Timestamp'' (AStr (strftime (utcnow e)))"
  by (simp add: dict_update_def auth_fields_def)








section \<open>The dispatcher: structure of a call\<close>

lemmas outcome_defs = result_of_def world_of_def calls_of_def

lemma self_or_new_dict: "self (snd (or_new_dict w r)) = self w"
  by (simp add: or_new_dict_def alloc_def split: option.splits)

lemma self_store: "self (store w a d) = self w"
  by (simp add: store_def)

lemma self_sign_params: "self (snd (sign_params e w method uri params auth)) = self w"
  by (simp add: sign_params_def Let_def self_store self_or_new_dict split_beta split: sum.splits)

lemma request_self: "self (world_of (request e w method uri params body headers auth)) = self w"
  by (simp add: request_def world_of_def Let_def split_beta self_store self_or_new_dict
      self_sign_params split: sum.splits)

lemma request_called_result:
  assumes "calls_of (request e w method uri params body headers auth) = [call]"
  shows "result_of (request e w method uri params body headers auth)
           = response_pair e (fst (snd (fetch e call))) (snd (snd (fetch e call)))"
  using assms
  by (auto simp: request_def outcome_defs Let_def split_beta split: sum.splits prod.splits)



lemma request_call_method:
  assumes "calls_of (request e w method uri params body headers auth) = [call]"
  shows "fc_method call = (if method = ''GET'' then ''GET'' else ''POST'')"
    and "fc_data call = (if method = ''GET'' then None else Some body)"
    and "fc_timeout call = 10"
  using assms
  by (auto simp: request_def outcome_defs Let_def split_beta split: sum.splits prod.splits)


lemma sign_params_True:
  assumes "sign_params e w method uri params True = (Inr r, w')"
  shows "\<exists>p signature.
           r = Some p
         \<and> generate_signature e (self w) method (merged_params e w params) uri = Inr signature
         \<and> cells w' p = setitem (merged_params e w params) ''Signature'' (AStr signature)
         \<and> (\<forall>b. b \<noteq> p \<longrightarrow> cells w' b = cells w b)
         \<and> (p = next_ref w \<and> next_ref w' = Suc (next_ref w)
              \<and> (params = None \<or> (\<exists>a. params = Some a \<and> cells w a = []))
            \<or> params = Some p \<and> cells w p \<noteq> [] \<and> next_ref w' = next_ref w)"
  using assms
  by (auto simp: sign_params_def or_new_dict_def alloc_def store_def Let_def merged_params_def
      caller_params_def split: option.splits if_splits sum.splits)


lemma request_called_unfold:
  assumes "calls_of (request e w method uri params body headers auth) = [call]"
  shows "\<exists>r w1. sign_params e w method uri params auth = (Inr r, w1)
           \<and> world_of (request e w method uri params body headers auth)
               = store (snd (or_new_dict w1 headers)) (fst (or_new_dict w1 headers))
                   (set_headers e method (cells (snd (or_new_dict w1 headers)) (fst (or_new_dict w1 headers))))
           \<and> fc_params call = map_option (cells (world_of (request e w method uri params body headers auth))) r
           \<and> fc_headers call
               = cells (world_of (request e w method uri params body headers auth)) (fst (or_new_dict w1 headers))"
proof (cases "sign_params e w method uri params auth")
  case (Pair x w1)
  show ?thesis
  proof (cases x)
    case (Inl err)
    with Pair assms show ?thesis
      by (simp add: request_def outcome_defs split: sum.splits)
  next
    case (Inr r)
    with Pair assms show ?thesis
      by (auto simp: request_def outcome_defs Let_def split_beta split: sum.splits)
  qed
qed

lemma or_new_dict_facts:
  "(fst (or_new_dict w r) = next_ref w
      \<and> cells (snd (or_new_dict w r)) = (cells w)(next_ref w := [])
    \<or> r = Some (fst (or_new_dict w r)) \<and> cells w (fst (or_new_dict w r)) \<noteq> []
      \<and> cells (snd (or_new_dict w r)) = cells w)"
  by (auto simp: or_new_dict_def alloc_def split: option.splits)

lemma keys_set_headers: "set (keys d) \<subseteq> set (keys (set_headers e method d))"
  by (auto simp: set_headers_def keys_setitem)

lemma map_of_set_headers_Signature:
  "map_of (set_headers e method d) ''Signature'' = map_of d ''Signature''"
  by (simp add: set_headers_def map_of_setitem)

lemma request_auth_called:
  assumes called: "calls_of (request e w method uri params body headers True) = [call]"
    and valid: "valid_ref w params"
  shows "\<exists>p signature.
           generate_signature e (self w) method (merged_params e w params) uri = Inr signature
         \<and> fc_params call = Some (cells (world_of (request e w method uri params body headers True)) p)
         \<and> (cells (world_of (request e w method uri params body headers True)) p
               = setitem (merged_params e w params) ''Signature'' (AStr signature)
            \<or> cells (world_of (request e w method uri params body headers True)) p
               = set_headers e method (setitem (merged_params e w params) ''Signature'' (AStr signature)))
         \<and> ((params = None \<or> headers \<noteq> params) \<and> valid_ref w headers \<longrightarrow>
              cells (world_of (request e w method uri params body headers True)) p
               = setitem (merged_params e w params) ''Signature'' (AStr signature))
         \<and> (\<forall>a. params = Some a \<and> cells w a \<noteq> [] \<longrightarrow> p = a)"
proof -
  let ?W = "world_of (request e w method uri params body headers True)"
  from request_called_unfold [OF called] obtain r w1 where
    sp: "sign_params e w method uri params True = (Inr r, w1)" and
    W: "?W = store (snd (or_new_dict w1 headers)) (fst (or_new_dict w1 headers))
             (set_headers e method (cells (snd (or_new_dict w1 headers)) (fst (or_new_dict w1 headers))))" and
    fp: "fc_params call = map_option (cells ?W) r"
    by blast
  from sign_params_True [OF sp] obtain p signature where
    r: "r = Some p" and
    sig: "generate_signature e (self w) method (merged_params e w params) uri = Inr signature" and
    cp: "cells w1 p = setitem (merged_params e w params) ''Signature'' (AStr signature)" and
    other: "\<forall>b. b \<noteq> p \<longrightarrow> cells w1 b = cells w b" and
    loc: "p = next_ref w \<and> next_ref w1 = Suc (next_ref w)
              \<and> (params = None \<or> (\<exists>a. params = Some a \<and> cells w a = []))
            \<or> params = Some p \<and> cells w p \<noteq> [] \<and> next_ref w1 = next_ref w"
    by blast
  have plt: "p < next_ref w1" using loc valid by (auto simp: valid_ref_def)
  let ?h = "fst (or_new_dict w1 headers)"
  let ?S = "setitem (merged_params e w params) ''Signature'' (AStr signature)"
  have hcases: "?h = next_ref w1 \<and> cells (snd (or_new_dict w1 headers)) = (cells w1)(next_ref w1 := [])
    \<or> headers = Some ?h \<and> cells w1 ?h \<noteq> [] \<and> cells (snd (or_new_dict w1 headers)) = cells w1"
    by (rule or_new_dict_facts)
  have Wp: "cells ?W p = (if ?h = p then set_headers e method ?S else ?S)"
    using hcases plt cp by (auto simp: W store_def)
  have noalias: "?h \<noteq> p" if "params = None \<or> headers \<noteq> params" "valid_ref w headers"
    using hcases plt loc that by (auto simp: valid_ref_def)
  have same: "p = a" if "params = Some a" "cells w a \<noteq> []" for a
    using loc that by auto
  show ?thesis
    using sig fp r Wp noalias same by (intro exI [of _ p] exI [of _ signature]) auto
qed




lemma keys_merged_params:
  "set (keys (merged_params e w params)) =
     set (keys (caller_params w params))
       \<union> {''AccessKeyId'', ''SignatureMethod'', ''SignatureVersion'', ''Timestamp''}"
  by (auto simp: merged_params_def dict_update_auth_fields keys_setitem)

lemma sign_params_reaches:
  assumes "auth \<longrightarrow> urlparse_hostname e (if is_url uri then uri else host (self w)) = Inr (Some h)"
  shows "\<exists>r. fst (sign_params e w method uri params auth) = Inr r"
proof (cases auth)
  case False
  then show ?thesis by (simp add: sign_params_def)
next
  case True
  with assms have found: "urlparse_hostname e (if is_url uri then uri else host (self w)) = Inr (Some h)"
    by simp
  have gs: "generate_signature e (self w) method ps uri \<noteq> Inl x" for ps x
    using signing_payload_found [OF found] by (simp add: generate_signature_def)
  show ?thesis
    using True
    by (simp add: sign_params_def Let_def split_beta self_store self_or_new_dict gs
        split: sum.splits)
qed

lemma request_reaches:
  assumes "(if is_url uri then Inr uri else urljoin e (host (self w)) uri) = Inr url"
    and "auth \<longrightarrow> urlparse_hostname e (if is_url uri then uri else host (self w)) = Inr (Some h)"
  shows "\<exists>call. calls_of (request e w method uri params body headers auth) = [call] \<and> fc_url call = url"
proof -
  from sign_params_reaches [OF assms(2)] obtain r where
    "fst (sign_params e w method uri params auth) = Inr r" by blast
  then obtain w1 where "sign_params e w method uri params auth = (Inr r, w1)"
    by (cases "sign_params e w method uri params auth") auto
  with assms(1) show ?thesis
    by (simp add: request_def outcome_defs Let_def split_beta)
qed

section \<open>The dispatcher: authentication fields\<close>






section \<open>The dispatcher: the result pair\<close>




lemma response_pair_raises:
  "isl (response_pair e success error)
     \<longleftrightarrow> \<not> truthy error \<and> (\<forall>d. parse_success e success \<noteq> Inr (PDict d))"
proof (cases "truthy error")
  case True
  then show ?thesis by (simp add: response_pair_def)
next
  case False
  show ?thesis
  proof (cases "parse_success e success")
    case (Inl err)
    with False show ?thesis by (simp add: response_pair_def)
  next
    case (Inr result)
    with False show ?thesis by (cases result) (auto simp: response_pair_def)
  qed
qed

lemma response_pair_error_kind:
  assumes "\<not> truthy error"
  shows "parse_success e success = Inl err \<Longrightarrow> response_pair e success error = Inl err"
    and "parse_success e success = Inr v \<Longrightarrow> \<not> is_dict v \<Longrightarrow>
           response_pair e success error = Inl AttributeError"
  using assms by (cases v; simp add: response_pair_def)+

lemma sample_reaches:
  "\<exists>call. calls_of (request (sample_env t) sample_world method ''/p'' params body headers auth) = [call]
      \<and> fc_url call = ''https://api.hbdm.com/p''"
  by (rule request_reaches [where h = "''api.hbdm.com''"]) (simp_all add: sample_defs string_defs)




section \<open>The dispatcher: when it raises\<close>

text \<open>
  Claim C6, as the code has it.  Once the transport has answered, \<open>request\<close> raises
  exactly when the error value is falsy and the success value neither is a dict nor
  parses to one: the failure of \<open>json.loads\<close> is passed on (a malformed body, or a
  body that is not a string), and a body that parses to a JSON value other than an
  object raises \<open>AttributeError\<close> at \<open>result.get\<close>.  So a transport error and an
  object with any status never raise.
\<close>

theorem request_raises_iff:
  assumes "calls_of (request e w method uri params body headers auth) = [call]"
    and "fetch e call = (code, success, error)"
  shows "(isl (result_of (request e w method uri params body headers auth))
            \<longleftrightarrow> \<not> truthy error \<and> (\<forall>d. parse_success e success \<noteq> Inr (PDict d)))
         \<and> (\<not> truthy error \<and> parse_success e success = Inl err \<longrightarrow>
              result_of (request e w method uri params body headers auth) = Inl err)
         \<and> (\<not> truthy error \<and> parse_success e success = Inr v \<and> \<not> is_dict v \<longrightarrow>
              result_of (request e w method uri params body headers auth) = Inl AttributeError)"
proof -
  have "result_of (request e w method uri params body headers auth) = response_pair e success error"
    using request_called_result [OF assms(1)] assms(2) by simp
  then show ?thesis
    using response_pair_raises [of e success error] response_pair_error_kind [of error e success]
    by auto
qed

text \<open>
  The theorem of C6 at a body \<open>{}\<close>, at a transport error, and at a body that is not
  JSON.
\<close>

theorem request_raises_iff_witness:
  "\<not> isl (result_of (request (sample_env (reply_with (PStr ''{}'') PNone)) sample_world ''GET'' ''/p''
        None PNone None False))
   \<and> parse_success (sample_env (reply_with (PStr ''{}'') PNone)) (PStr ''{}'') = Inr (PDict [])
   \<and> \<not> isl (result_of (request (sample_env (reply_with PNone (PStr ''timeout''))) sample_world ''GET''
        ''/p'' None PNone None False))
   \<and> result_of (request (sample_env (reply_with (PStr ''<html>'') PNone)) sample_world ''GET'' ''/p''
        None PNone None False) = Inl JSONDecodeError"
proof -
  let ?E1 = "sample_env (reply_with (PStr ''{}'') PNone)"
  let ?E2 = "sample_env (reply_with PNone (PStr ''timeout''))"
  let ?E3 = "sample_env (reply_with (PStr ''<html>'') PNone)"
  obtain c1 where c1: "calls_of (request ?E1 sample_world ''GET'' ''/p'' None PNone None False) = [c1]"
    using sample_reaches by blast
  obtain c2 where c2: "calls_of (request ?E2 sample_world ''GET'' ''/p'' None PNone None False) = [c2]"
    using sample_reaches by blast
  obtain c3 where c3: "calls_of (request ?E3 sample_world ''GET'' ''/p'' None PNone None False) = [c3]"
    using sample_reaches by blast
  have f1: "fetch ?E1 c1 = (PInt 200, PStr ''{}'', PNone)"
    and f2: "fetch ?E2 c2 = (PInt 200, PNone, PStr ''timeout'')"
    and f3: "fetch ?E3 c3 = (PInt 200, PStr ''<html>'', PNone)"
    by (simp_all add: sample_defs)
  have p1: "parse_success ?E1 (PStr ''{}'') = Inr (PDict [])"
    and p3: "parse_success ?E3 (PStr ''<html>'') = Inl JSONDecodeError"
    by (simp_all add: parse_success_def sample_defs)
  have r1: "\<not> isl (result_of (request ?E1 sample_world ''GET'' ''/p'' None PNone None False))"
    using request_raises_iff [OF c1 f1] p1 by simp
  have r2: "\<not> isl (result_of (request ?E2 sample_world ''GET'' ''/p'' None PNone None False))"
    using request_raises_iff [OF c2 f2] by simp
  have r3: "result_of (request ?E3 sample_world ''GET'' ''/p'' None PNone None False) = Inl JSONDecodeError"
    using request_raises_iff [OF c3 f3, of JSONDecodeError] p3 by simp
  show ?thesis by (intro conjI) (rule r1 p1 r2 r3)+
qed

text \<open>
  Claim C6 as stated fails on the body \<open>[]\<close>: it parses as JSON, to the empty list, and
  \<open>request\<close> raises \<open>AttributeError\<close>.
\<close>

theorem request_json_list_counterexample:
  "json_loads (sample_env (reply_with (PStr ''[]'') PNone)) ''[]'' = Inr (PList [])
   \<and> result_of (request (sample_env (reply_with (PStr ''[]'') PNone)) sample_world ''GET'' ''/p''
        None PNone None False) = Inl AttributeError"
  by (simp add: request_def sign_params_def or_new_dict_def alloc_def store_def response_pair_def
      parse_success_def outcome_defs sample_defs string_defs Let_def)


section \<open>The dispatcher: the method sent\<close>

lemma non_get_call:
  assumes "method \<noteq> ''GET''"
    and "calls_of (request e w method uri params body headers auth) = [call]"
    and "valid_ref w params"
  shows "fc_method call = ''POST''
         \<and> fc_data call = Some body
         \<and> (auth \<longrightarrow>
              (\<exists>signature P.
                  fc_params call = Some P
                \<and> map_of P ''Signature'' = Some (AStr signature)
                \<and> generate_signature e (self w) method (merged_params e w params) uri
                    = Inr signature))"
proof -
  have m: "fc_method call = ''POST''" and d: "fc_data call = Some body"
    using request_call_method [OF assms(2)] assms(1) by simp_all
  have "\<exists>signature P.
            fc_params call = Some P
          \<and> map_of P ''Signature'' = Some (AStr signature)
          \<and> generate_signature e (self w) method (merged_params e w params) uri = Inr signature"
    if auth
  proof -
    let ?W = "world_of (request e w method uri params body headers True)"
    from that assms(2) have "calls_of (request e w method uri params body headers True) = [call]"
      by simp
    from request_auth_called [OF this assms(3)] obtain p signature where
      sig: "generate_signature e (self w) method (merged_params e w params) uri = Inr signature" and
      fp: "fc_params call = Some (cells ?W p)" and
      alt: "cells ?W p = setitem (merged_params e w params) ''Signature'' (AStr signature)
            \<or> cells ?W p
              = set_headers e method (setitem (merged_params e w params) ''Signature'' (AStr signature))"
      by blast
    from alt have "map_of (cells ?W p) ''Signature'' = Some (AStr signature)"
      by (auto simp: map_of_set_headers_Signature map_of_setitem)
    with sig fp show ?thesis by blast
  qed
  with m d show ?thesis by blast
qed

text \<open>
  Claim C9.  For every method other than the string \<open>GET\<close>, a call of \<open>request\<close> for
  which the URL resolves (and, when \<open>auth\<close> is true, the URL parser finds a host
  name) makes one call to the transport, with the method \<open>POST\<close> and the body, and,
  when \<open>auth\<close> is true, the signature it sends is the one computed over the method as
  it was passed.
\<close>

theorem request_non_get_posts:
  assumes "method \<noteq> ''GET''"
    and "(if is_url uri then Inr uri else urljoin e (host (self w)) uri) = Inr url"
    and "auth \<longrightarrow> urlparse_hostname e (if is_url uri then uri else host (self w)) = Inr (Some h)"
    and "valid_ref w params"
  shows "\<exists>call.
           calls_of (request e w method uri params body headers auth) = [call]
         \<and> fc_method call = ''POST''
         \<and> fc_url call = url
         \<and> fc_data call = Some body
         \<and> (auth \<longrightarrow>
              (\<exists>signature P.
                  fc_params call = Some P
                \<and> map_of P ''Signature'' = Some (AStr signature)
                \<and> generate_signature e (self w) method (merged_params e w params) uri
                    = Inr signature))"
proof -
  from request_reaches [OF assms(2,3)] obtain call where
    called: "calls_of (request e w method uri params body headers auth) = [call]" and
    url: "fc_url call = url"
    by blast
  from non_get_call [OF assms(1) called assms(4)] called url show ?thesis
    by blast
qed

text \<open>The theorem of C9 at the methods \<open>get\<close> (signed) and \<open>DELETE\<close>.\<close>

theorem request_non_get_posts_witness:
  "''get'' \<noteq> ''GET'' \<and> ''DELETE'' \<noteq> ''GET'' \<and> valid_ref sample_world None
   \<and> (\<exists>call signature.
          calls_of (request (sample_env (reply_with PNone PNone)) sample_world ''get'' ''/p''
             None PNone None True) = [call]
        \<and> fc_method call = ''POST''
        \<and> map_of (the (fc_params call)) ''Signature'' = Some (AStr signature)
        \<and> generate_signature (sample_env (reply_with PNone PNone)) sample_client ''get''
             (merged_params (sample_env (reply_with PNone PNone)) sample_world None) ''/p''
             = Inr signature)
   \<and> (\<exists>call.
          calls_of (request (sample_env (reply_with PNone PNone)) sample_world ''DELETE'' ''/p''
             None PNone None False) = [call]
        \<and> fc_method call = ''POST'')"
proof -
  let ?E = "sample_env (reply_with PNone PNone)"
  have n1: "''get'' \<noteq> ''GET''" and n2: "''DELETE'' \<noteq> ''GET''" by simp_all
  have v: "valid_ref sample_world None" by (simp add: valid_ref_def)
  have self: "self sample_world = sample_client" by (simp add: sample_world_def)
  have url: "(if is_url ''/p'' then Inr ''/p'' else urljoin ?E (host (self sample_world)) ''/p'')
               = Inr ''https://api.hbdm.com/p''"
    by (simp add: sample_defs string_defs)
  have hn: "b \<longrightarrow> urlparse_hostname ?E (if is_url ''/p'' then ''/p'' else host (self sample_world))
              = Inr (Some ''api.hbdm.com'')" for b
    by (simp add: sample_defs string_defs)
  from request_non_get_posts [OF n1 url hn [of True] v, of PNone None] obtain c1 signature where
    "calls_of (request ?E sample_world ''get'' ''/p'' None PNone None True) = [c1]"
    "fc_method c1 = ''POST''"
    "map_of (the (fc_params c1)) ''Signature'' = Some (AStr signature)"
    "generate_signature ?E (self sample_world) ''get'' (merged_params ?E sample_world None) ''/p''
       = Inr signature"
    by auto
  moreover from request_non_get_posts [OF n2 url hn [of False] v, of PNone None] obtain c2 where
    "calls_of (request ?E sample_world ''DELETE'' ''/p'' None PNone None False) = [c2]"
    "fc_method c2 = ''POST''"
    by auto
  ultimately show ?thesis using n1 n2 v self by auto
qed

section \<open>The dispatcher: what it changes\<close>

lemma do_post_self: "self (world_of (do_post e w uri body)) = self w"
  by (simp add: do_post_def request_self)

lemma do_get_self: "self (world_of (do_get e w uri params)) = self w"
  by (simp add: do_get_def alloc_def split_beta request_self)

lemma raised_self: "self (world_of (Inl err, w, [])) = self w"
  by (simp add: world_of_def)

lemma request_params_keys:
  assumes "calls_of (request e w method uri (Some a) body headers True) = [call]"
    and "a < next_ref w" and "cells w a \<noteq> []"
  shows "{''AccessKeyId'', ''SignatureMethod'', ''SignatureVersion'', ''Timestamp'', ''Signature''}
           \<union> set (keys (cells w a))
           \<subseteq> set (keys (cells (world_of (request e w method uri (Some a) body headers True)) a))"
    and "fc_params call = Some (cells (world_of (request e w method uri (Some a) body headers True)) a)"
proof -
  let ?W = "world_of (request e w method uri (Some a) body headers True)"
  let ?M = "merged_params e w (Some a)"
  have v: "valid_ref w (Some a)" using assms(2) by (simp add: valid_ref_def)
  from request_auth_called [OF assms(1) v] assms(3) obtain signature where
    fp: "fc_params call = Some (cells ?W a)" and
    alt: "cells ?W a = setitem ?M ''Signature'' (AStr signature)
          \<or> cells ?W a = set_headers e method (setitem ?M ''Signature'' (AStr signature))"
    by auto
  have "set (keys (setitem ?M ''Signature'' (AStr signature))) \<subseteq> set (keys (cells ?W a))"
    using alt keys_set_headers [of "setitem ?M ''Signature'' (AStr signature)" e "method"] by auto
  moreover have "set (keys (setitem ?M ''Signature'' (AStr signature)))
      = {''AccessKeyId'', ''SignatureMethod'', ''SignatureVersion'', ''Timestamp'', ''Signature''}
        \<union> set (keys (cells w a))"
    by (auto simp: keys_setitem keys_merged_params caller_params_def)
  ultimately show "{''AccessKeyId'', ''SignatureMethod'', ''SignatureVersion'', ''Timestamp'', ''Signature''}
           \<union> set (keys (cells w a)) \<subseteq> set (keys (cells ?W a))"
    by simp
  show "fc_params call = Some (cells ?W a)" by (rule fp)
qed

text \<open>
  Claim C10.  When \<open>request\<close> is called with \<open>auth\<close> true and the caller's mapping is
  not empty, and the URL resolves and the URL parser finds a host name, the mapping at
  the caller's address holds afterwards its old keys and \<open>AccessKeyId\<close>,
  \<open>SignatureMethod\<close>, \<open>SignatureVersion\<close>, \<open>Timestamp\<close> and \<open>Signature\<close>, and it
  is the mapping the transport was given.  No operation changes the client: \<open>request\<close> and every
  endpoint method leave \<open>self\<close> as it was.
\<close>

theorem request_mutates_params:
  "(a < next_ref w \<and> cells w a \<noteq> []
      \<and> (if is_url uri then Inr uri else urljoin e (host (self w)) uri) = Inr url
      \<and> urlparse_hostname e (if is_url uri then uri else host (self w)) = Inr (Some h) \<longrightarrow>
        {''AccessKeyId'', ''SignatureMethod'', ''SignatureVersion'', ''Timestamp'', ''Signature''}
          \<union> set (keys (cells w a))
          \<subseteq> set (keys (cells (world_of (request e w method uri (Some a) body headers True)) a))
      \<and> (\<exists>call. calls_of (request e w method uri (Some a) body headers True) = [call]
            \<and> fc_params call
                = Some (cells (world_of (request e w method uri (Some a) body headers True)) a)))
   \<and> self (world_of (request e w method uri params body headers auth)) = self w
   \<and> self (world_of (get_swap_info e w oa)) = self w
   \<and> self (world_of (get_price_limit e w oa)) = self w
   \<and> self (world_of (get_orderbook e w c)) = self w
   \<and> self (world_of (get_klines e w c period oa ob oc)) = self w
   \<and> self (world_of (get_merged_data e w c)) = self w
   \<and> self (world_of (get_funding_rate e w c)) = self w
   \<and> self (world_of (get_asset_info e w o1)) = self w
   \<and> self (world_of (get_position e w o1)) = self w
   \<and> self (world_of (get_account_position e w v1)) = self w
   \<and> self (world_of (create_order e w v1 v2 v3 v4 v5 v6 v7 o1 kwargs)) = self w
   \<and> self (world_of (create_orders e w v1)) = self w
   \<and> self (world_of (revoke_order e w v1 o1 o2)) = self w
   \<and> self (world_of (revoke_orders e w v1 l1 l2)) = self w
   \<and> self (world_of (revoke_order_all e w v1)) = self w
   \<and> self (world_of (get_order_info e w v1 l1 l2)) = self w
   \<and> self (world_of (get_order_detail e w v1 v2 o1 o2 o3 o4)) = self w
   \<and> self (world_of (get_open_orders e w v1 o1 o2)) = self w
   \<and> self (world_of (get_history_orders e w v1 v2 v3 v4 v5 o1 o2)) = self w
   \<and> self (world_of (transfer_inner e w v1 v2 v3 v4)) = self w
   \<and> self (world_of (transfer_between_spot_swap e w v1 v2 v3 v4 o1)) = self w
   \<and> self (world_of (create_trigger_order e w v1 v2 v3 v4 v5 v6 v7 v8 v9)) = self w
   \<and> self (world_of (revoke_trigger_order e w v1 v2)) = self w
   \<and> self (world_of (revoke_all_trigger_orders e w v1)) = self w
   \<and> self (world_of (get_trigger_openorders e w v1 o1 o2)) = self w
   \<and> self (world_of (get_trigger_hisorders e w v1 v2 v3 o1 o2)) = self w
   \<and> self (world_of (lightning_close_position e w v1 v2 v3 o1 o2)) = self w"
proof -
  have mut: "a < next_ref w \<and> cells w a \<noteq> []
      \<and> (if is_url uri then Inr uri else urljoin e (host (self w)) uri) = Inr url
      \<and> urlparse_hostname e (if is_url uri then uri else host (self w)) = Inr (Some h) \<longrightarrow>
        {''AccessKeyId'', ''SignatureMethod'', ''SignatureVersion'', ''Timestamp'', ''Signature''}
          \<union> set (keys (cells w a))
          \<subseteq> set (keys (cells (world_of (request e w method uri (Some a) body headers True)) a))
      \<and> (\<exists>call. calls_of (request e w method uri (Some a) body headers True) = [call]
            \<and> fc_params call
                = Some (cells (world_of (request e w method uri (Some a) body headers True)) a))"
  proof (intro impI, elim conjE)
    assume a: "a < next_ref w" and ne: "cells w a \<noteq> []"
      and url: "(if is_url uri then Inr uri else urljoin e (host (self w)) uri) = Inr url"
      and hn: "urlparse_hostname e (if is_url uri then uri else host (self w)) = Inr (Some h)"
    from request_reaches [of uri e w url True h "method" "Some a" body headers] url hn
    obtain call where
      called: "calls_of (request e w method uri (Some a) body headers True) = [call]"
      by auto
    from request_params_keys [OF called a ne] called show
      "{''AccessKeyId'', ''SignatureMethod'', ''SignatureVersion'', ''Timestamp'', ''Signature''}
          \<union> set (keys (cells w a))
          \<subseteq> set (keys (cells (world_of (request e w method uri (Some a) body headers True)) a))
      \<and> (\<exists>call. calls_of (request e w method uri (Some a) body headers True) = [call]
            \<and> fc_params call
                = Some (cells (world_of (request e w method uri (Some a) body headers True)) a))"
      by blast
  qed
  have ids1: "self (world_of (revoke_orders e w v1 l1 l2)) = self w"
    by (simp add: revoke_orders_def do_post_self raised_self split: sum.splits)
  have ids2: "self (world_of (get_order_info e w v1 l1 l2)) = self w"
    by (simp add: get_order_info_def do_post_self raised_self split: sum.splits)
  have his: "self (world_of (get_trigger_hisorders e w v1 v2 v3 o1 o2)) = self w"
    by (simp add: get_trigger_hisorders_def do_post_self raised_self split: sum.splits)
  show ?thesis
    by (intro conjI mut ids1 ids2 his request_self)
      (simp_all add: do_get_self do_post_self
        get_swap_info_def get_price_limit_def get_orderbook_def get_klines_def get_merged_data_def
        get_funding_rate_def get_asset_info_def get_position_def get_account_position_def
        create_order_def create_orders_def revoke_order_def revoke_order_all_def
        get_order_detail_def get_open_orders_def get_history_orders_def transfer_inner_def
        transfer_between_spot_swap_def create_trigger_order_def revoke_trigger_order_def
        revoke_all_trigger_orders_def get_trigger_openorders_def lightning_close_position_def)
qed

text \<open>The theorem of C10 at a signed \<open>POST\<close> with the caller's mapping \<open>{"symbol": "BTC"}\<close>.\<close>

theorem request_mutates_params_witness:
  "0 < next_ref (world_with [(''symbol'', AStr ''BTC'')])
   \<and> cells (world_with [(''symbol'', AStr ''BTC'')]) 0 = [(''symbol'', AStr ''BTC'')]
   \<and> (\<exists>call.
         calls_of (request (sample_env (reply_with PNone PNone)) (world_with [(''symbol'', AStr ''BTC'')])
            ''POST'' ''/p'' (Some 0) PNone None True) = [call])
   \<and> {''AccessKeyId'', ''SignatureMethod'', ''SignatureVersion'', ''Timestamp'', ''Signature'',
       ''symbol''}
      \<subseteq> set (keys (cells (world_of
           (request (sample_env (reply_with PNone PNone)) (world_with [(''symbol'', AStr ''BTC'')])
              ''POST'' ''/p'' (Some 0) PNone None True)) 0))
   \<and> self (world_of
        (request (sample_env (reply_with PNone PNone)) (world_with [(''symbol'', AStr ''BTC'')])
           ''POST'' ''/p'' (Some 0) PNone None True)) = sample_client"
proof -
  let ?E = "sample_env (reply_with PNone PNone)"
  let ?w = "world_with [(''symbol'', AStr ''BTC'')]"
  let ?R = "request ?E ?w ''POST'' ''/p'' (Some 0) PNone None True"
  have n: "0 < next_ref ?w" and c: "cells ?w 0 = [(''symbol'', AStr ''BTC'')]"
    and self: "self ?w = sample_client"
    by (simp_all add: world_with_def)
  have url: "(if is_url ''/p'' then Inr ''/p'' else urljoin ?E (host (self ?w)) ''/p'')
               = Inr ''https://api.hbdm.com/p''"
    by (simp add: sample_defs string_defs world_with_def)
  have hn: "urlparse_hostname ?E (if is_url ''/p'' then ''/p'' else host (self ?w))
              = Inr (Some ''api.hbdm.com'')"
    by (simp add: sample_defs string_defs world_with_def)
  note main = request_mutates_params [of 0 ?w "''/p''" ?E "''https://api.hbdm.com/p''"
      "''api.hbdm.com''" "''POST''" PNone None "Some 0" True]
  have ne: "cells ?w 0 \<noteq> []" by (simp add: c)
  have ks: "set (keys (cells ?w 0)) = {''symbol''}" by (simp add: c keys_def)
  have first: "{''AccessKeyId'', ''SignatureMethod'', ''SignatureVersion'', ''Timestamp'', ''Signature''}
          \<union> set (keys (cells ?w 0)) \<subseteq> set (keys (cells (world_of ?R) 0))
      \<and> (\<exists>call. calls_of ?R = [call] \<and> fc_params call = Some (cells (world_of ?R) 0))"
    using main [THEN conjunct1] n ne url hn by blast
  have sub: "{''AccessKeyId'', ''SignatureMethod'', ''SignatureVersion'', ''Timestamp'', ''Signature'',
           ''symbol''} \<subseteq> set (keys (cells (world_of ?R) 0))"
    using first unfolding ks by blast
  have called: "\<exists>call. calls_of ?R = [call]"
    using first by blast
  have fr: "self (world_of ?R) = sample_client"
    using main [THEN conjunct2, THEN conjunct1] self by simp
  show ?thesis using n c called sub fr by blast
qed

section \<open>Endpoint methods: the mappings they build\<close>















text \<open>
  Claim C4 fails on \<open>get_trigger_hisorders\<close>: for every argument assignment it
  raises \<open>NameError\<close> for \<open>trade_type\<close> before it builds its body, makes no
  call to the transport, and returns no pair.
\<close>

theorem get_trigger_hisorders_name_error:
  "get_trigger_hisorders e w contract_code status create_date page_index page_size
     = (Inl (NameError ''trade_type''), w, [])"
  by (simp add: get_trigger_hisorders_def get_trigger_hisorders_body_def load_name_def
      module_globals_def)

text \<open>
  The theorem on C4 at a contract code, a status and a create date, the optional
  arguments left out.
\<close>

theorem get_trigger_hisorders_name_error_witness:
  "result_of (get_trigger_hisorders (sample_env (reply_with (PDict [(''status'', PStr ''ok'')]) PNone))
      sample_world (PStr ''BTC-USDT'') (PStr ''0'') (PInt 10) None None)
     = Inl (NameError ''trade_type'')
   \<and> calls_of (get_trigger_hisorders (sample_env (reply_with (PDict [(''status'', PStr ''ok'')]) PNone))
      sample_world (PStr ''BTC-USDT'') (PStr ''0'') (PInt 10) None None) = []"
  using get_trigger_hisorders_name_error
    [of "sample_env (reply_with (PDict [(''status'', PStr ''ok'')]) PNone)" sample_world
        "PStr ''BTC-USDT''" "PStr ''0''" "PInt 10" None None]
  by (simp add: outcome_defs)





end
